theory Spec2Isabelle
  imports Main "HOL-Library.Word" "HOL-Library.AList" "HOL-Library.Sublist"
begin

section \<open>Go values used by package responder\<close>

text \<open>
  A byte slice is a list of 8-bit words; \<open>bytes.Equal\<close> is equality of the lists (a nil
  and an empty slice are equal for it, and both are the empty list here).
  \<open>crypto.Hash\<close> is an unsigned integer; of its constants the package uses
  \<open>crypto.SHA1\<close>, the third of the enumeration that starts at 1.
\<close>

type_synonym bytes = "8 word list"

type_synonym Hash = nat

definition SHA1 :: Hash where
  "SHA1 = 3"

text \<open>
  Modelled from the spec: the declaration of \<open>issuance.IssuerNameID\<close> is not among the
  sources. The spec calls it the issuer's logical identifier; the code returns the
  literal 0 for it and prints it with \<open>%d\<close>, so it is an integer type, taken here as a
  64-bit one. Only equality on it is used.
\<close>

type_synonym IssuerNameID = "64 word"

subsection \<open>Errors\<close>

text \<open>
  An error made by \<open>fmt.Errorf\<close> is kept as its format string, its operands other than
  the one of \<open>%w\<close>, and the operand of \<open>%w\<close> when the format has one: that operand is
  what \<open>Unwrap\<close> returns. \<open>errors.New\<close> makes an error with a text and nothing to unwrap.
\<close>

datatype fmtarg = AStr string | AHash Hash | AInt int | AID IssuerNameID

text \<open>
  Modelled from the spec: the declaration of the package variable \<open>ErrNotFound\<close> is not
  among the sources. The spec describes it as the distinguished not-found error kind;
  it is a value of its own here, different from every other error.
\<close>

datatype error =
    ErrNotFound
  | ErrorsNew string
  | Errorf string "fmtarg list" "error option"

text \<open>\<open>errors.Is(err, ErrNotFound)\<close>: follow \<open>Unwrap\<close> until the sentinel or the end.\<close>

fun is_not_found :: "error \<Rightarrow> bool" where
  "is_not_found ErrNotFound = True"
| "is_not_found (ErrorsNew s) = False"
| "is_not_found (Errorf f as None) = False"
| "is_not_found (Errorf f as (Some e)) = is_not_found e"

subsection \<open>Log lines\<close>

datatype logarg = LStr string | LInt int | LErr error

datatype logline =
    Debugf string "logarg list"
  | Infof string "logarg list"
  | Warningf string "logarg list"
  | Errf string "logarg list"

subsection \<open>Panics and maps\<close>

text \<open>
  A call either returns its results or panics. Go's two results \<open>(value, error)\<close> are a
  pair in which each component may be nil (\<open>None\<close>).
\<close>

datatype 'a outcome = Panics string | Returns 'a

text \<open>
  A Go map is nil or allocated. An allocated map is the list of its entries, one per
  key, in the order in which a \<open>range\<close> loop visits them; Go leaves that order open, so
  a statement about every list of entries is a statement about every order.
  Reading a nil map finds nothing, ranging over it visits nothing, and assigning to
  it panics.
\<close>

datatype ('k, 'v) gomap = NilMap | GoMap "('k \<times> 'v) list"

fun gomap_assign :: "('k, 'v) gomap \<Rightarrow> 'k \<Rightarrow> 'v \<Rightarrow> ('k, 'v) gomap outcome" where
  "gomap_assign NilMap k v = Panics ''assignment to entry in nil map''"
| "gomap_assign (GoMap es) k v = Returns (GoMap (AList.update k v es))"

fun gomap_lookup :: "('k, 'v) gomap \<Rightarrow> 'k \<Rightarrow> 'v option" where
  "gomap_lookup NilMap k = None"
| "gomap_lookup (GoMap es) k = map_of es k"

fun gomap_range :: "('k, 'v) gomap \<Rightarrow> ('k \<times> 'v) list" where
  "gomap_range NilMap = []"
| "gomap_range (GoMap es) = es"

fun gomap_len :: "('k, 'v) gomap \<Rightarrow> nat" where
  "gomap_len NilMap = 0"
| "gomap_len (GoMap es) = length es"

fun gomap_ok :: "('k, 'v) gomap \<Rightarrow> bool" where
  "gomap_ok NilMap = True"
| "gomap_ok (GoMap es) = distinct (map fst es)"

subsection \<open>\<open>encoding/hex\<close>\<close>

definition hexdigit :: "nat \<Rightarrow> char" where
  "hexdigit n = ''0123456789abcdef'' ! n"

fun EncodeToString :: "bytes \<Rightarrow> string" where
  "EncodeToString [] = []"
| "EncodeToString (b # bs) =
     hexdigit (unat b div 16) # hexdigit (unat b mod 16) # EncodeToString bs"

section \<open>Requests, responses and sources\<close>

text \<open>
  \<open>ocsp.Request\<close> as the parser makes it. \<open>ocsp.Response\<close> with the two fields the
  package reads. \<open>Response\<close> embeds a pointer to an \<open>ocsp.Response\<close>, which may be nil,
  and carries the encoded bytes.
\<close>

record Request =
  HashAlgorithm :: Hash
  IssuerNameHash :: bytes
  IssuerKeyHash :: bytes
  SerialNumber :: int

record ocsp_Response =
  ResponderKeyHash :: bytes
  resp_SerialNumber :: int

record Response =
  embedded :: "ocsp_Response option"
  Raw :: bytes

text \<open>
  A \<open>Source\<close> is anything with a method \<open>Response\<close>. It may keep state of its own
  (\<open>'w\<close>); a call takes the request and that state, and returns the two results and
  the new state.
\<close>

type_synonym 'w Source = "Request \<Rightarrow> 'w \<Rightarrow> (Response option \<times> error option) \<times> 'w"

section \<open>The filtering source\<close>

record responderID =
  nameHash :: bytes
  keyHash :: bytes

text \<open>
  The fields \<open>counter\<close> and \<open>log\<close> of the Go struct point to objects that calls change;
  those objects are in the \<open>world\<close> below, the other fields are here.
\<close>

record 'w filterSource =
  wrapped :: "'w Source"
  hashAlgorithm :: Hash
  issuers :: "(IssuerNameID, responderID) gomap"
  serialPrefixes :: "string list"

text \<open>
  What a call can change: the counter vector (a count per label value), the lines
  logged, the state of the wrapped source, and the requests handed to the wrapped source
  so far.
\<close>

record 'w world =
  counter :: "string \<Rightarrow> nat"
  logged :: "logline list"
  invoked :: "Request list"
  backing :: 'w

definition Inc :: "string \<Rightarrow> (string \<Rightarrow> nat) \<Rightarrow> (string \<Rightarrow> nat)" where
  "Inc l c = c(l := c l + 1)"

text \<open>
  Modelled from the spec: \<open>issuance.Certificate\<close> and its methods \<open>KeyHash\<close>, \<open>NameHash\<close>
  and \<open>NameID\<close> are not among the sources. A certificate is the three values those
  methods return for it: the hashes of its key and name and its identifier.
\<close>

record Certificate =
  KeyHash :: bytes
  NameHash :: bytes
  NameID :: IssuerNameID

subsection \<open>\<open>NewFilterSource\<close>\<close>

text \<open>
  The loop over the issuer certificates, started on the map as it is declared.
\<close>

fun populate ::
  "(IssuerNameID, responderID) gomap \<Rightarrow> Certificate list \<Rightarrow>
     (IssuerNameID, responderID) gomap outcome" where
  "populate m [] = Returns m"
| "populate m (issuerCert # rest) =
     (case gomap_assign m (NameID issuerCert)
             \<lparr>nameHash = NameHash issuerCert, keyHash = KeyHash issuerCert\<rparr> of
        Panics p \<Rightarrow> Panics p
      | Returns m' \<Rightarrow> populate m' rest)"

text \<open>
  \<open>var issuersByNameId map[...]...\<close> declares the map and does not allocate it: the loop
  starts on the nil map. The counter vector that the function makes has the count 0
  for every label; it is the \<open>counter\<close> of the world in which the source is then used.
\<close>

definition NewFilterSource ::
  "Certificate list \<Rightarrow> string list \<Rightarrow> 'w Source \<Rightarrow>
     ('w filterSource option \<times> error option) outcome" where
  "NewFilterSource issuerCerts pfxs w =
     (if length issuerCerts < 1
      then Returns (None, Some (ErrorsNew ''Filter must include at least 1 issuer cert''))
      else (case populate NilMap issuerCerts of
              Panics p \<Rightarrow> Panics p
            | Returns issuersByNameId \<Rightarrow>
                Returns (Some \<lparr>wrapped = w, hashAlgorithm = SHA1,
                               issuers = issuersByNameId, serialPrefixes = pfxs\<rparr>,
                         None)))"

subsection \<open>\<open>checkRequest\<close>, \<open>checkResponse\<close> and \<open>Response\<close>\<close>

text \<open>The loop over the prefixes, left at the first one that matches.\<close>

fun matchPrefix :: "string \<Rightarrow> string list \<Rightarrow> bool" where
  "matchPrefix serialString [] = False"
| "matchPrefix serialString (p # ps) =
     (if prefix p serialString then True else matchPrefix serialString ps)"

text \<open>The loop over the issuers, left at the first entry with the key hash.\<close>

fun findIssuer :: "bytes \<Rightarrow> (IssuerNameID \<times> responderID) list \<Rightarrow> IssuerNameID option" where
  "findIssuer h [] = None"
| "findIssuer h ((nameID, rid) # es) =
     (if h = keyHash rid then Some nameID else findIssuer h es)"

text \<open>
  \<open>core.SerialToString\<close> is not among the sources: \<open>checkRequest\<close> and \<open>Response\<close> take
  it as their first argument.
\<close>

definition checkRequest ::
  "(int \<Rightarrow> string) \<Rightarrow> 'w filterSource \<Rightarrow> Request \<Rightarrow> IssuerNameID \<times> error option" where
  "checkRequest SerialToString src req =
     (if HashAlgorithm req \<noteq> hashAlgorithm src
      then (0, Some (Errorf ''unsupported issuer key/name hash algorithm %s: %w''
                       [AHash (HashAlgorithm req)] (Some ErrNotFound)))
      else if length (serialPrefixes src) > 0 \<and>
              \<not> matchPrefix (SerialToString (SerialNumber req)) (serialPrefixes src)
      then (0, Some (Errorf ''unrecognized serial prefix: %w'' [] (Some ErrNotFound)))
      else (case findIssuer (IssuerKeyHash req) (gomap_range (issuers src)) of
              Some nameID \<Rightarrow> (nameID, None)
            | None \<Rightarrow>
                (0, Some (Errorf ''unrecognized issuer key hash %s: %w''
                            [AStr (EncodeToString (IssuerKeyHash req))] (Some ErrNotFound)))))"

text \<open>
  \<open>checkResponse\<close> reads \<open>resp.ResponderKeyHash\<close> through two pointers, the response and
  the \<open>ocsp.Response\<close> embedded in it; a nil one of the two is a panic.
\<close>

definition nil_deref :: string where
  "nil_deref = ''runtime error: invalid memory address or nil pointer dereference''"

definition checkResponse ::
  "'w filterSource \<Rightarrow> IssuerNameID \<Rightarrow> Response option \<Rightarrow> error option outcome" where
  "checkResponse src iss resp =
     (case gomap_lookup (issuers src) iss of
        None \<Rightarrow> Returns (Some (Errorf ''unrecognized issuer name ID: %d'' [AID iss] None))
      | Some rid \<Rightarrow>
          (case resp of
             None \<Rightarrow> Panics nil_deref
           | Some r \<Rightarrow>
               (case embedded r of
                  None \<Rightarrow> Panics nil_deref
                | Some o_resp \<Rightarrow>
                    if keyHash rid \<noteq> ResponderKeyHash o_resp
                    then Returns (Some (Errorf ''responder does not match requested issuer''
                                          [] None))
                    else Returns None)))"

definition filterSource_Response ::
  "(int \<Rightarrow> string) \<Rightarrow> 'w filterSource \<Rightarrow> Request \<Rightarrow> 'w world \<Rightarrow>
     (Response option \<times> error option) outcome \<times> 'w world" where
  "filterSource_Response SerialToString src req w =
     (case checkRequest SerialToString src req of
        (iss, Some err) \<Rightarrow>
          (Returns (None, Some err),
           w\<lparr>logged := logged w @
                  [Debugf ''Not responding to filtered OCSP request: %s'' [LErr err]],
             counter := Inc ''request_filtered'' (counter w)\<rparr>)
      | (iss, None) \<Rightarrow>
          (case wrapped src req (backing w) of
             ((resp, werr), b) \<Rightarrow>
               (let w1 = w\<lparr>invoked := invoked w @ [req], backing := b\<rparr> in
                case werr of
                  Some err \<Rightarrow>
                    (Returns (None, Some err),
                     w1\<lparr>counter := Inc ''wrapped_error'' (counter w1)\<rparr>)
                | None \<Rightarrow>
                    (case checkResponse src iss resp of
                       Panics p \<Rightarrow> (Panics p, w1)
                     | Returns (Some err) \<Rightarrow>
                         (Returns (None, Some err),
                          w1\<lparr>logged := logged w1 @
                                 [Warningf ''OCSP Response not sent (issuer and serial mismatch) for CA=%s, Serial=%s''
                                    [LStr (EncodeToString (IssuerKeyHash req)),
                                     LStr (SerialToString (SerialNumber req))]],
                             counter := Inc ''response_filtered'' (counter w1)\<rparr>)
                     | Returns None \<Rightarrow>
                         (Returns (resp, None),
                          w1\<lparr>counter := Inc ''success'' (counter w1)\<rparr>)))))"

section \<open>The in-memory source\<close>

subsection \<open>Library functions\<close>

text \<open>
  The regular expression \<open>\s\<close> of Go's \<open>regexp\<close> matches one of the five characters tab,
  line feed, form feed, carriage return and space. \<open>Split(s, -1)\<close> with it cuts at every
  such character and keeps the empty pieces: one piece more than there are separators.
\<close>

definition is_space :: "char \<Rightarrow> bool" where
  "is_space c = (c \<in> set [CHR 0x09, CHR 0x0A, CHR 0x0C, CHR 0x0D, CHR 0x20])"

fun Split :: "string \<Rightarrow> string list" where
  "Split [] = [[]]"
| "Split (c # cs) =
     (if is_space c then [] # Split cs
      else (case Split cs of
              [] \<Rightarrow> [[c]]
            | t # ts \<Rightarrow> (c # t) # ts))"

text \<open>\<open>(*big.Int).String\<close>: the decimal digits, after a minus sign for a negative number.\<close>

definition digit :: "nat \<Rightarrow> char" where
  "digit n = ''0123456789'' ! n"

function decimal :: "nat \<Rightarrow> string" where
  "decimal n = (if n < 10 then [digit n] else decimal (n div 10) @ [digit (n mod 10)])"
  by pat_completeness auto
termination
  by (relation "measure id") auto

declare decimal.simps [simp del]

definition Int_String :: "int \<Rightarrow> string" where
  "Int_String i = (if i < 0 then CHR ''-'' # decimal (nat (- i)) else decimal (nat i))"

subsection \<open>\<open>InMemorySource\<close>\<close>

text \<open>
  The map holds pointers to responses, and a pointer may be nil. The logger of the Go
  struct is not read by \<open>Response\<close>; what the loader logs is returned with its result.
\<close>

record InMemorySource =
  responses :: "(string, Response option) gomap"

definition NewMemorySource :: "(string, Response option) gomap \<Rightarrow> InMemorySource" where
  "NewMemorySource rs = \<lparr>responses = rs\<rparr>"

definition InMemorySource_Response ::
  "InMemorySource \<Rightarrow> Request \<Rightarrow> Response option \<times> error option" where
  "InMemorySource_Response src request =
     (case gomap_lookup (responses src) (Int_String (SerialNumber request)) of
        None \<Rightarrow> (None, Some ErrNotFound)
      | Some response \<Rightarrow> (response, None))"

text \<open>An in-memory source as a \<open>Source\<close>: it keeps no state between calls.\<close>

definition as_Source :: "InMemorySource \<Rightarrow> unit Source" where
  "as_Source src = (\<lambda>request u. (InMemorySource_Response src request, u))"

subsection \<open>\<open>NewMemorySourceFromFile\<close>\<close>

text \<open>
  \<open>ioutil.ReadFile\<close>, \<open>base64.StdEncoding.DecodeString\<close> and \<open>ocsp.ParseResponse\<close> are
  library functions: each returns a value or an error, and the loader takes them as
  arguments (\<open>ReadFile\<close>, \<open>DecodeString\<close>, \<open>ParseResponse\<close>).

  The loop over the tokens, on the map and the lines logged so far.
\<close>

fun loadTokens ::
  "(string \<Rightarrow> error + bytes) \<Rightarrow> (bytes \<Rightarrow> error + ocsp_Response) \<Rightarrow> string list \<Rightarrow>
     (string, Response option) gomap \<Rightarrow> logline list \<Rightarrow>
     (string, Response option) gomap outcome \<times> logline list" where
  "loadTokens DecodeString ParseResponse [] rs lg = (Returns rs, lg)"
| "loadTokens DecodeString ParseResponse (b64 # rest) rs lg =
     (if b64 = [] then loadTokens DecodeString ParseResponse rest rs lg
      else (case DecodeString b64 of
              Inl tmpErr \<Rightarrow>
                loadTokens DecodeString ParseResponse rest rs
                  (lg @ [Errf ''Base64 decode error %s on: %s'' [LErr tmpErr, LStr b64]])
            | Inr der \<Rightarrow>
                (case ParseResponse der of
                   Inl tmpErr \<Rightarrow>
                     loadTokens DecodeString ParseResponse rest rs
                       (lg @ [Errf ''OCSP decode error %s on: %s'' [LErr tmpErr, LStr b64]])
                 | Inr response \<Rightarrow>
                     (case gomap_assign rs (Int_String (resp_SerialNumber response))
                             (Some \<lparr>embedded = Some response, Raw = der\<rparr>) of
                        Panics p \<Rightarrow> (Panics p, lg)
                      | Returns rs' \<Rightarrow>
                          loadTokens DecodeString ParseResponse rest rs' lg))))"

definition NewMemorySourceFromFile ::
  "(string \<Rightarrow> error + string) \<Rightarrow> (string \<Rightarrow> error + bytes) \<Rightarrow>
     (bytes \<Rightarrow> error + ocsp_Response) \<Rightarrow> string \<Rightarrow> logline list \<Rightarrow>
     (InMemorySource option \<times> error option) outcome \<times> logline list" where
  "NewMemorySourceFromFile ReadFile DecodeString ParseResponse responseFile lg =
     (case ReadFile responseFile of
        Inl err \<Rightarrow> (Returns (None, Some err), lg)
      | Inr fileContents \<Rightarrow>
          (case loadTokens DecodeString ParseResponse (Split fileContents) (GoMap []) lg of
             (Panics p, lg') \<Rightarrow> (Panics p, lg')
           | (Returns rs, lg') \<Rightarrow>
               (Returns (Some (NewMemorySource rs), None),
                lg' @ [Infof ''Read %d OCSP responses'' [LInt (int (gomap_len rs))]])))"

section \<open>The loader, token by token\<close>

text \<open>
  The claims about the loader speak of the tokens that are kept and of those that are
  skipped. The definitions of this section say it in those words, and the lemmas
  below prove that the loop of \<open>NewMemorySourceFromFile\<close> computes the same.

  A token is kept when it is not empty, decodes and parses: \<open>decodes\<close> gives the
  decoded bytes and the parsed response of such a token. \<open>valid\<close> lists them for the
  tokens of a file, in the order of the file. \<open>entry\<close> is the key and the value that
  the loader stores for one of them. \<open>tokenError\<close> is the line logged for a token
  that is skipped for an error, and \<open>failures\<close> lists these lines in the order of the
  file. \<open>assignAll\<close> is a run of assignments \<open>m[k] = v\<close> to an allocated map.
\<close>

definition decodes ::
  "(string \<Rightarrow> error + bytes) \<Rightarrow> (bytes \<Rightarrow> error + ocsp_Response) \<Rightarrow> string \<Rightarrow>
     (bytes \<times> ocsp_Response) option" where
  "decodes D P b64 =
     (if b64 = [] then None
      else (case D b64 of
              Inl e \<Rightarrow> None
            | Inr der \<Rightarrow>
                (case P der of
                   Inl e \<Rightarrow> None
                 | Inr response \<Rightarrow> Some (der, response))))"

definition valid ::
  "(string \<Rightarrow> error + bytes) \<Rightarrow> (bytes \<Rightarrow> error + ocsp_Response) \<Rightarrow> string list \<Rightarrow>
     (bytes \<times> ocsp_Response) list" where
  "valid D P tokens = List.map_filter (decodes D P) tokens"

definition tokenError ::
  "(string \<Rightarrow> error + bytes) \<Rightarrow> (bytes \<Rightarrow> error + ocsp_Response) \<Rightarrow> string \<Rightarrow>
     logline option" where
  "tokenError D P b64 =
     (if b64 = [] then None
      else (case D b64 of
              Inl e \<Rightarrow> Some (Errf ''Base64 decode error %s on: %s'' [LErr e, LStr b64])
            | Inr der \<Rightarrow>
                (case P der of
                   Inl e \<Rightarrow> Some (Errf ''OCSP decode error %s on: %s'' [LErr e, LStr b64])
                 | Inr response \<Rightarrow> None)))"

definition entry :: "bytes \<times> ocsp_Response \<Rightarrow> string \<times> Response option" where
  "entry dr = (Int_String (resp_SerialNumber (snd dr)),
               Some \<lparr>embedded = Some (snd dr), Raw = fst dr\<rparr>)"

definition failures ::
  "(string \<Rightarrow> error + bytes) \<Rightarrow> (bytes \<Rightarrow> error + ocsp_Response) \<Rightarrow> string list \<Rightarrow>
     logline list" where
  "failures D P tokens = List.map_filter (tokenError D P) tokens"

definition assignAll :: "('k \<times> 'v) list \<Rightarrow> ('k \<times> 'v) list \<Rightarrow> ('k \<times> 'v) list" where
  "assignAll kvs es = fold (\<lambda>(k, v). AList.update k v) kvs es"

text \<open>
  Reading a decimal numeral back: the inverse of \<open>decimal\<close>, by which two numbers
  with the same decimal string are equal.
\<close>

definition digit_val :: "char \<Rightarrow> nat" where
  "digit_val c = of_char c - 48"

definition undecimal :: "string \<Rightarrow> nat" where
  "undecimal s = foldl (\<lambda>a c. 10 * a + digit_val c) 0 s"

section \<open>An example configuration\<close>

text \<open>
  The scenario of the spec: two issuers with key hashes \<open>Ka\<close> and \<open>Kb\<close>, and a wrapped
  in-memory source in which serial 1 has a response signed for \<open>Kb\<close>. Hashes are
  shortened to two bytes, and the filter is written down field by field.
  \<open>exampleSerialToString\<close> stands for \<open>core.SerialToString\<close>, the format \<open>%036x\<close>:
  lower-case hexadecimal, a minus sign first for a negative number, filled with zeros
  after the sign to a width of 36.
\<close>

function hexa :: "nat \<Rightarrow> string" where
  "hexa n = (if n < 16 then [hexdigit n] else hexa (n div 16) @ [hexdigit (n mod 16)])"
  by pat_completeness auto
termination
  by (relation "measure id") auto

declare hexa.simps [simp del]

definition exampleSerialToString :: "int \<Rightarrow> string" where
  "exampleSerialToString i =
     (let h = hexa (nat \<bar>i\<bar>); sign = (if i < 0 then ''-'' else [])
      in sign @ replicate (36 - length sign - length h) (CHR ''0'') @ h)"

definition Ka :: bytes where
  "Ka = [0x0A, 0x11]"

definition Kb :: bytes where
  "Kb = [0x0B, 0x22]"

definition exampleIssuers :: "(IssuerNameID, responderID) gomap" where
  "exampleIssuers =
     GoMap [(1, \<lparr>nameHash = [0xA0], keyHash = Ka\<rparr>), (2, \<lparr>nameHash = [0xB0], keyHash = Kb\<rparr>)]"

definition responseB :: Response where
  "responseB = \<lparr>embedded = Some \<lparr>ResponderKeyHash = Kb, resp_SerialNumber = 1\<rparr>,
                 Raw = [0x30, 0x03, 0x0A, 0x01, 0x00]\<rparr>"

definition exampleStore :: InMemorySource where
  "exampleStore = NewMemorySource (GoMap [(''1'', Some responseB)])"

definition responseA :: Response where
  "responseA = \<lparr>embedded = Some \<lparr>ResponderKeyHash = Ka, resp_SerialNumber = 27\<rparr>,
                 Raw = [0x30, 0x03, 0x0A, 0x01, 0x1B]\<rparr>"

definition twoResponses :: InMemorySource where
  "twoResponses = NewMemorySource (GoMap [(''1'', Some responseB), (''27'', Some responseA)])"

definition exampleFilter :: "unit filterSource" where
  "exampleFilter =
     \<lparr>wrapped = as_Source exampleStore, hashAlgorithm = SHA1,
      issuers = exampleIssuers, serialPrefixes = [''ff'', ''00'']\<rparr>"

definition world0 :: "unit world" where
  "world0 = \<lparr>counter = (\<lambda>l. 0), logged = [], invoked = [], backing = ()\<rparr>"

definition requestA :: Request where
  "requestA = \<lparr>HashAlgorithm = SHA1, IssuerNameHash = [0xA0], IssuerKeyHash = Ka,
                SerialNumber = 1\<rparr>"

definition requestB :: Request where
  "requestB = \<lparr>HashAlgorithm = SHA1, IssuerNameHash = [0xB0], IssuerKeyHash = Kb,
                SerialNumber = 1\<rparr>"

text \<open>
  Stand-ins for the library functions of the loader: a decoder that refuses a token
  with an exclamation mark and otherwise returns the bytes of the token, a parser
  that reads the serial number from a first byte that is a digit and refuses
  anything else, and a file system with two files.
\<close>

definition exampleDecodeString :: "string \<Rightarrow> error + bytes" where
  "exampleDecodeString b64 =
     (if CHR ''!'' \<in> set b64 then Inl (ErrorsNew ''illegal base64 data'')
      else Inr (map of_char b64))"

definition exampleParseResponse :: "bytes \<Rightarrow> error + ocsp_Response" where
  "exampleParseResponse der =
     (case der of
        [] \<Rightarrow> Inl (ErrorsNew ''empty response'')
      | b # bs \<Rightarrow>
          if b < 0x30 \<or> 0x39 < b then Inl (ErrorsNew ''malformed response'')
          else Inr \<lparr>ResponderKeyHash = bs, resp_SerialNumber = uint b - 48\<rparr>)"

definition exampleReadFile :: "string \<Rightarrow> error + string" where
  "exampleReadFile name =
     (if name = ''two_good_one_bad'' then Inr (''1a'' @ [CHR 0x0A] @ ''!!!!  2b'')
      else if name = ''same_serial'' then Inr ''7old 8x 7new''
      else Inl (ErrorsNew ''open: no such file or directory''))"

definition SHA256 :: Hash where
  "SHA256 = 5"

definition requestSHA256 :: Request where
  "requestSHA256 = requestA\<lparr>HashAlgorithm := SHA256\<rparr>"

definition requestOther :: Request where
  "requestOther = requestA\<lparr>SerialNumber := 0xAB0000000000000000000000000000000001\<rparr>"

definition requestC :: Request where
  "requestC = requestA\<lparr>IssuerKeyHash := [0x0C, 0x33]\<rparr>"

definition openFilter :: "unit filterSource" where
  "openFilter = exampleFilter\<lparr>serialPrefixes := []\<rparr>"

section \<open>Lemmas on the filtering source\<close>

lemma checkRequest_error_not_found:
  "checkRequest sts src req = (iss, Some e) \<Longrightarrow> is_not_found e \<and> iss = 0"
  by (auto simp: checkRequest_def split: if_splits option.splits)

lemma findIssuer_None:
  "findIssuer h es = None \<longleftrightarrow> (\<forall>(k, r) \<in> set es. keyHash r \<noteq> h)"
  by (induction es) (auto split: if_splits)

lemma findIssuer_Some:
  "findIssuer h es = Some k \<Longrightarrow> \<exists>r. (k, r) \<in> set es \<and> keyHash r = h"
  by (induction es) (auto split: if_splits)

lemma matchPrefix_iff:
  "matchPrefix s ps \<longleftrightarrow> (\<exists>p \<in> set ps. prefix p s)"
  by (induction ps) auto

lemma gomap_lookup_absent:
  "\<forall>(k, v) \<in> set (gomap_range m). k \<noteq> key \<Longrightarrow> gomap_lookup m key = None"
  by (cases m) (auto simp: map_of_eq_None_iff)

lemma gomap_lookup_range:
  "gomap_ok m \<Longrightarrow> (k, r) \<in> set (gomap_range m) \<Longrightarrow> gomap_lookup m k = Some r"
  by (cases m) auto

lemma Response_request_filtered:
  "checkRequest sts src req = (iss, Some e) \<Longrightarrow>
   filterSource_Response sts src req w =
     (Returns (None, Some e),
      w\<lparr>logged := logged w @ [Debugf ''Not responding to filtered OCSP request: %s'' [LErr e]],
        counter := Inc ''request_filtered'' (counter w)\<rparr>)"
  by (simp add: filterSource_Response_def)

lemma Response_admitted:
  "checkRequest sts src req = (iss, None) \<Longrightarrow>
   wrapped src req (backing w) = ((resp, None), b) \<Longrightarrow>
   filterSource_Response sts src req w =
     (case checkResponse src iss resp of
        Panics p \<Rightarrow> (Panics p, w\<lparr>invoked := invoked w @ [req], backing := b\<rparr>)
      | Returns (Some err) \<Rightarrow>
          (Returns (None, Some err),
           w\<lparr>invoked := invoked w @ [req], backing := b,
             logged := logged w @
               [Warningf ''OCSP Response not sent (issuer and serial mismatch) for CA=%s, Serial=%s''
                  [LStr (EncodeToString (IssuerKeyHash req)),
                   LStr (sts (SerialNumber req))]],
             counter := Inc ''response_filtered'' (counter w)\<rparr>)
      | Returns None \<Rightarrow>
          (Returns (resp, None),
           w\<lparr>invoked := invoked w @ [req], backing := b,
             counter := Inc ''success'' (counter w)\<rparr>))"
  by (simp add: filterSource_Response_def split: outcome.splits option.splits)

lemma checkResponse_error_plain:
  "checkResponse src iss resp = Returns (Some e) \<Longrightarrow> \<not> is_not_found e"
  by (auto simp: checkResponse_def split: option.splits if_splits)

lemma checkRequest_unknown_issuer:
  assumes "\<forall>(k, rid) \<in> set (gomap_range (issuers src)). keyHash rid \<noteq> IssuerKeyHash req"
  shows "\<exists>e. checkRequest sts src req = (0, Some e)"
proof -
  have "findIssuer (IssuerKeyHash req) (gomap_range (issuers src)) = None"
    using assms by (simp add: findIssuer_None)
  then show ?thesis by (simp add: checkRequest_def)
qed

lemma checkRequest_known_issuer:
  assumes "(nameID, rid) \<in> set (gomap_range (issuers src))"
    and "keyHash rid = IssuerKeyHash req"
    and "HashAlgorithm req = hashAlgorithm src"
    and "serialPrefixes src = [] \<or>
         (\<exists>p \<in> set (serialPrefixes src). prefix p (sts (SerialNumber req)))"
  shows "\<exists>iss rid'. checkRequest sts src req = (iss, None) \<and>
           (iss, rid') \<in> set (gomap_range (issuers src)) \<and> keyHash rid' = IssuerKeyHash req"
proof -
  have "findIssuer (IssuerKeyHash req) (gomap_range (issuers src)) \<noteq> None"
    using assms(1,2) by (auto simp: findIssuer_None)
  then obtain iss where f: "findIssuer (IssuerKeyHash req) (gomap_range (issuers src)) = Some iss"
    by blast
  from findIssuer_Some [OF f] obtain rid' where
    "(iss, rid') \<in> set (gomap_range (issuers src))" "keyHash rid' = IssuerKeyHash req"
    by blast
  moreover have "checkRequest sts src req = (iss, None)"
    using assms(3,4) f by (auto simp: checkRequest_def matchPrefix_iff)
  ultimately show ?thesis by blast
qed

lemma Response_uses_iss:
  assumes "checkRequest sts src req = (iss, None)"
    and "wrapped src req (backing w) = ((resp, None), b)"
  shows "fst (filterSource_Response sts src req w) =
           (case checkResponse src iss resp of
              Panics p \<Rightarrow> Panics p
            | Returns (Some err) \<Rightarrow> Returns (None, Some err)
            | Returns None \<Rightarrow> Returns (resp, None))"
  using Response_admitted [OF assms]
  by (simp split: outcome.splits option.splits)

section \<open>Lemmas on the loader\<close>

lemma digit_val_digit: "d < 10 \<Longrightarrow> digit_val (digit d) = d"
proof -
  assume "d < 10"
  then consider "d = 0" | "d = 1" | "d = 2" | "d = 3" | "d = 4" | "d = 5" | "d = 6"
    | "d = 7" | "d = 8" | "d = 9" by atomize_elim arith
  then show ?thesis
    by cases (simp_all add: digit_val_def digit_def)
qed

lemma digit_not_minus: "d < 10 \<Longrightarrow> digit d \<noteq> CHR ''-''"
proof -
  assume "d < 10"
  then consider "d = 0" | "d = 1" | "d = 2" | "d = 3" | "d = 4" | "d = 5" | "d = 6"
    | "d = 7" | "d = 8" | "d = 9" by atomize_elim arith
  then show ?thesis
    by cases (simp_all add: digit_def)
qed

lemma undecimal_snoc: "undecimal (s @ [c]) = 10 * undecimal s + digit_val c"
  by (simp add: undecimal_def)

lemma undecimal_decimal: "undecimal (decimal n) = n"
proof (induction n rule: decimal.induct)
  case (1 n)
  show ?case
  proof (cases "n < 10")
    case True
    then show ?thesis
      by (simp add: decimal.simps [of n] undecimal_def digit_val_digit)
  next
    case False
    with 1 have "undecimal (decimal (n div 10)) = n div 10" by simp
    with False show ?thesis
      by (simp add: decimal.simps [of n] undecimal_snoc digit_val_digit)
  qed
qed

lemma decimal_no_minus: "CHR ''-'' \<notin> set (decimal n)"
proof (induction n rule: decimal.induct)
  case (1 n)
  show ?case
  proof (cases "n < 10")
    case True
    then show ?thesis
      using digit_not_minus [of n] by (simp add: decimal.simps [of n])
  next
    case False
    with 1 have "CHR ''-'' \<notin> set (decimal (n div 10))" by simp
    with False show ?thesis
      using digit_not_minus [of "n mod 10"] by (simp add: decimal.simps [of n])
  qed
qed

lemma decimal_inj: "decimal a = decimal b \<Longrightarrow> a = b"
  by (metis undecimal_decimal)

lemma Int_String_inj: "Int_String a = Int_String b \<longleftrightarrow> a = b"
proof
  assume e: "Int_String a = Int_String b"
  show "a = b"
  proof (cases "a < 0")
    case True
    note a = this
    show ?thesis
    proof (cases "b < 0")
      case True
      with a e have "nat (- a) = nat (- b)"
        by (simp add: Int_String_def decimal_inj)
      with a True show ?thesis by simp
    next
      case False
      from e have "set (Int_String a) = set (Int_String b)" by simp
      with a False have "CHR ''-'' \<in> set (decimal (nat b))"
        by (auto simp: Int_String_def)
      then show ?thesis by (simp add: decimal_no_minus)
    qed
  next
    case False
    note a = this
    show ?thesis
    proof (cases "b < 0")
      case True
      from e have "set (Int_String a) = set (Int_String b)" by simp
      with a True have "CHR ''-'' \<in> set (decimal (nat a))"
        by (auto simp: Int_String_def)
      then show ?thesis by (simp add: decimal_no_minus)
    next
      case False
      with a e have "nat a = nat b"
        by (simp add: Int_String_def decimal_inj)
      with a False show ?thesis by simp
    qed
  qed
qed simp

lemma assignAll_Nil [simp]: "assignAll [] es = es"
  by (simp add: assignAll_def)

lemma assignAll_Cons [simp]: "assignAll ((k, v) # kvs) es = assignAll kvs (AList.update k v es)"
  by (simp add: assignAll_def)

lemma distinct_assignAll:
  "distinct (map fst es) \<Longrightarrow> distinct (map fst (assignAll kvs es))"
  by (induction kvs arbitrary: es) (auto simp: AList.distinct_update)

lemma map_of_assignAll: "map_of (assignAll kvs es) = map_of es ++ map_of (rev kvs)"
  by (induction kvs arbitrary: es) (auto simp: AList.update_conv')

lemma keys_assignAll: "fst ` set (assignAll kvs es) = fst ` set kvs \<union> fst ` set es"
proof (induction kvs arbitrary: es)
  case Nil
  then show ?case by simp
next
  case (Cons kv kvs)
  obtain k v where kv: "kv = (k, v)" by (cases kv)
  have "fst ` set (assignAll kvs (AList.update k v es)) =
          fst ` set kvs \<union> ({k} \<union> fst ` set es)"
    by (simp only: Cons.IH AList.dom_update)
  then show ?case by (simp add: kv)
qed

lemma valid_Nil [simp]: "valid D P [] = []"
  by (simp add: valid_def)

lemma failures_Nil [simp]: "failures D P [] = []"
  by (simp add: failures_def)

lemma valid_Cons:
  "valid D P (t # ts) = (case decodes D P t of None \<Rightarrow> valid D P ts | Some dr \<Rightarrow> dr # valid D P ts)"
  by (simp add: valid_def split: option.splits)

lemma failures_Cons:
  "failures D P (t # ts) =
     (case tokenError D P t of None \<Rightarrow> failures D P ts | Some l \<Rightarrow> l # failures D P ts)"
  by (simp add: failures_def split: option.splits)

lemma loadTokens_GoMap:
  "loadTokens D P tokens (GoMap es) lg =
     (Returns (GoMap (assignAll (map entry (valid D P tokens)) es)), lg @ failures D P tokens)"
proof (induction tokens arbitrary: es lg)
  case Nil
  then show ?case by simp
next
  case (Cons b64 rest)
  show ?case
  proof (cases "b64 = []")
    case True
    then show ?thesis
      using Cons by (simp add: valid_Cons failures_Cons decodes_def tokenError_def)
  next
    case False
    show ?thesis
    proof (cases "D b64")
      case (Inl e)
      with False show ?thesis
        using Cons by (simp add: valid_Cons failures_Cons decodes_def tokenError_def)
    next
      case (Inr der)
      note d = this
      show ?thesis
      proof (cases "P der")
        case (Inl e)
        with False d show ?thesis
          using Cons by (simp add: valid_Cons failures_Cons decodes_def tokenError_def)
      next
        case (Inr response)
        with False d show ?thesis
          using Cons by (simp add: valid_Cons failures_Cons decodes_def tokenError_def entry_def)
      qed
    qed
  qed
qed

lemma fst_entry [simp]: "fst (entry dr) = Int_String (resp_SerialNumber (snd dr))"
  by (simp add: entry_def)

lemma keys_entries:
  "fst ` set (map entry vs) = Int_String ` (\<lambda>dr. resp_SerialNumber (snd dr)) ` set vs"
  by (simp add: image_image)

lemma one_entry_per_key:
  "distinct (map fst rs) \<Longrightarrow> k \<in> fst ` set rs \<Longrightarrow>
   length (filter (\<lambda>kv. fst kv = k) rs) = 1"
proof (induction rs)
  case Nil
  then show ?case by simp
next
  case (Cons kv rs)
  show ?case
  proof (cases "fst kv = k")
    case True
    with Cons.prems have "k \<notin> fst ` set rs" by simp
    then have "filter (\<lambda>kv. fst kv = k) rs = []"
      by (auto simp: filter_empty_conv)
    with True show ?thesis by simp
  next
    case False
    with Cons show ?thesis by auto
  qed
qed

lemma NewMemorySourceFromFile_loads:
  assumes "ReadFile f = Inr contents"
  shows "NewMemorySourceFromFile ReadFile D P f lg =
     (Returns (Some \<lparr>responses = GoMap (assignAll (map entry (valid D P (Split contents))) [])\<rparr>,
               None),
      lg @ failures D P (Split contents) @
        [Infof ''Read %d OCSP responses''
           [LInt (int (length (assignAll (map entry (valid D P (Split contents))) [])))]])"
  using assms by (simp add: NewMemorySourceFromFile_def loadTokens_GoMap NewMemorySource_def)

lemma loaded_count:
  "length (assignAll (map entry vs) []) = card ((\<lambda>dr. resp_SerialNumber (snd dr)) ` set vs)"
proof -
  let ?rs = "assignAll (map entry vs) []"
  have d: "distinct (map fst ?rs)" by (simp add: distinct_assignAll)
  have "length ?rs = length (map fst ?rs)" by simp
  also have "\<dots> = card (set (map fst ?rs))" by (rule distinct_card [OF d, symmetric])
  also have "set (map fst ?rs) = Int_String ` (\<lambda>dr. resp_SerialNumber (snd dr)) ` set vs"
    by (simp add: keys_assignAll image_image)
  also have "card \<dots> = card ((\<lambda>dr. resp_SerialNumber (snd dr)) ` set vs)"
    by (rule card_image) (simp add: inj_on_def Int_String_inj)
  finally show ?thesis .
qed

lemma loaded_lookup:
  "map_of (assignAll (map entry vs) []) k = map_of (rev (map entry vs)) k"
  by (simp add: map_of_assignAll)

lemma loaded_last_wins:
  assumes "vs = pre @ (der, r) # post"
    and "resp_SerialNumber r \<notin> (\<lambda>dr. resp_SerialNumber (snd dr)) ` set post"
  shows "map_of (assignAll (map entry vs) []) (Int_String (resp_SerialNumber r)) =
           Some (Some \<lparr>embedded = Some r, Raw = der\<rparr>)"
proof -
  have "Int_String (resp_SerialNumber r) \<notin> fst ` set (map entry post)"
    using assms(2) unfolding keys_entries by (simp add: inj_image_mem_iff inj_on_def Int_String_inj)
  then have "map_of (rev (map entry post)) (Int_String (resp_SerialNumber r)) = None"
    by (simp add: map_of_eq_None_iff)
  moreover have "rev (map entry vs) = rev (map entry post) @ entry (der, r) # rev (map entry pre)"
    by (simp add: assms(1))
  ultimately have "map_of (rev (map entry vs)) (Int_String (resp_SerialNumber r)) =
      Some (Some \<lparr>embedded = Some r, Raw = der\<rparr>)"
    by (simp add: map_add_def entry_def)
  then show ?thesis
    by (simp only: loaded_lookup)
qed

lemma loaded_absent:
  "map_of (assignAll (map entry vs) []) (Int_String n) = None \<longleftrightarrow>
     n \<notin> (\<lambda>dr. resp_SerialNumber (snd dr)) ` set vs"
proof -
  have "map_of (assignAll (map entry vs) []) (Int_String n) = None \<longleftrightarrow>
          Int_String n \<notin> fst ` set (assignAll (map entry vs) [])"
    by (simp add: map_of_eq_None_iff)
  also have "\<dots> \<longleftrightarrow> Int_String n \<notin> Int_String ` (\<lambda>dr. resp_SerialNumber (snd dr)) ` set vs"
    by (simp only: keys_assignAll keys_entries) simp
  also have "\<dots> \<longleftrightarrow> n \<notin> (\<lambda>dr. resp_SerialNumber (snd dr)) ` set vs"
    by (simp add: inj_image_mem_iff inj_on_def Int_String_inj)
  finally show ?thesis .
qed

lemma loaded_present:
  assumes "map_of (assignAll (map entry vs) []) k = Some v"
  shows "\<exists>der r. (der, r) \<in> set vs \<and> k = Int_String (resp_SerialNumber r) \<and>
           v = Some \<lparr>embedded = Some r, Raw = der\<rparr>"
proof -
  from assms have "(k, v) \<in> set (rev (map entry vs))"
    by (simp add: loaded_lookup map_of_SomeD del: set_rev rev_map)
  then show ?thesis by (auto simp: entry_def)
qed

lemma loaded_answers:
  "InMemorySource_Response \<lparr>responses = GoMap (assignAll (map entry vs) [])\<rparr> request =
     (None, Some ErrNotFound) \<longleftrightarrow>
   SerialNumber request \<notin> (\<lambda>dr. resp_SerialNumber (snd dr)) ` set vs"
  using loaded_absent [of vs "SerialNumber request"]
  by (auto simp: InMemorySource_Response_def split: option.splits)

lemma loaded_answers_stored:
  assumes "InMemorySource_Response \<lparr>responses = GoMap (assignAll (map entry vs) [])\<rparr> request =
     (resp, err)"
  shows "(resp = None \<and> err = Some ErrNotFound) \<or>
         (\<exists>der r. (der, r) \<in> set vs \<and> resp_SerialNumber r = SerialNumber request \<and>
            resp = Some \<lparr>embedded = Some r, Raw = der\<rparr> \<and> err = None)"
proof (cases "map_of (assignAll (map entry vs) []) (Int_String (SerialNumber request))")
  case None
  with assms show ?thesis by (auto simp: InMemorySource_Response_def)
next
  case (Some v)
  from loaded_present [OF Some] obtain der r where
    "(der, r) \<in> set vs" "Int_String (SerialNumber request) = Int_String (resp_SerialNumber r)"
    "v = Some \<lparr>embedded = Some r, Raw = der\<rparr>"
    by blast
  with assms Some show ?thesis
    by (auto simp: InMemorySource_Response_def Int_String_inj)
qed

section \<open>Construction\<close>

text \<open>
  C1. Without issuer certificates \<open>NewFilterSource\<close> returns an error and no source.
  With one or more it does not succeed: the first assignment in its loop is to a map
  that was never allocated, and the call panics before a source exists. The claim
  asks for a source whose issuer map holds one responder identity per certificate.
\<close>

theorem NewFilterSource_panics:
  "NewFilterSource [] ps ws =
     Returns (None, Some (ErrorsNew ''Filter must include at least 1 issuer cert'')) \<and>
   NewFilterSource (c # cs) ps ws = Panics ''assignment to entry in nil map''"
  by (simp add: NewFilterSource_def)

section \<open>Filtering\<close>

text \<open>
  C2. A request has passed \<open>checkRequest\<close> with issuer \<open>iss\<close>, and the wrapped source
  returns a response whose responder key hash is not the key hash configured for
  \<open>iss\<close>. Then \<open>Response\<close> returns an error and no response, whatever error the wrapped
  source returned with the response; the call is counted as \<open>response_filtered\<close>, or as
  \<open>wrapped_error\<close> when the wrapped source returned an error too.
\<close>

theorem Response_rejects_mismatch:
  assumes "checkRequest SerialToString src req = (iss, None)"
    and "wrapped src req (backing w) = ((Some r, werr), b)"
    and "embedded r = Some o_resp"
    and "map_option keyHash (gomap_lookup (issuers src) iss) \<noteq> Some (ResponderKeyHash o_resp)"
  shows "\<exists>e w'. filterSource_Response SerialToString src req w = (Returns (None, Some e), w') \<and>
           counter w' =
             Inc (if werr = None then ''response_filtered'' else ''wrapped_error'') (counter w)"
proof (cases werr)
  case None
  have "\<exists>e. checkResponse src iss (Some r) = Returns (Some e)"
    using assms(3,4)
    by (cases "gomap_lookup (issuers src) iss") (simp_all add: checkResponse_def)
  then obtain e where "checkResponse src iss (Some r) = Returns (Some e)" ..
  then show ?thesis
    using Response_admitted [OF assms(1) assms(2) [unfolded None]] None by simp
next
  case (Some err)
  then show ?thesis
    using assms(1,2) by (simp add: filterSource_Response_def)
qed

text \<open>
  The scenario of the spec: the request names issuer A, the stored response for the
  serial is of issuer B.
\<close>

theorem Response_rejects_mismatch_witness:
  "checkRequest exampleSerialToString exampleFilter requestA = (1, None) \<and>
   wrapped exampleFilter requestA (backing world0) = ((Some responseB, None), ()) \<and>
   embedded responseB = Some \<lparr>ResponderKeyHash = Kb, resp_SerialNumber = 1\<rparr> \<and>
   map_option keyHash (gomap_lookup (issuers exampleFilter) 1) \<noteq>
     Some (ResponderKeyHash \<lparr>ResponderKeyHash = Kb, resp_SerialNumber = 1\<rparr>) \<and>
   (\<exists>e w'. filterSource_Response exampleSerialToString exampleFilter requestA world0 =
              (Returns (None, Some e), w') \<and>
            counter w' = Inc ''response_filtered'' (counter world0))"
proof -
  have h1: "checkRequest exampleSerialToString exampleFilter requestA = (1, None)"
    by code_simp
  have h2: "wrapped exampleFilter requestA (backing world0) = ((Some responseB, None), ())"
    by code_simp
  have h3: "embedded responseB = Some \<lparr>ResponderKeyHash = Kb, resp_SerialNumber = 1\<rparr>"
    by code_simp
  have h4: "map_option keyHash (gomap_lookup (issuers exampleFilter) 1) \<noteq>
     Some (ResponderKeyHash \<lparr>ResponderKeyHash = Kb, resp_SerialNumber = 1\<rparr>)"
    by code_simp
  from Response_rejects_mismatch [OF h1 h2 h3 h4] h1 h2 h3 h4
  show ?thesis by simp
qed

text \<open>
  C3. A request has passed \<open>checkRequest\<close> with issuer \<open>iss\<close>, and the wrapped source
  returns, without error, a response whose responder key hash is the key hash
  configured for \<open>iss\<close>. Then \<open>Response\<close> returns that response, the same value and so
  the same \<open>Raw\<close> bytes, and no error; the count of \<open>success\<close> goes up by one and no
  other count changes; nothing is logged.
\<close>

theorem Response_releases_match:
  assumes "checkRequest SerialToString src req = (iss, None)"
    and "wrapped src req (backing w) = ((Some r, None), b)"
    and "embedded r = Some o_resp"
    and "gomap_lookup (issuers src) iss = Some rid"
    and "keyHash rid = ResponderKeyHash o_resp"
  shows "filterSource_Response SerialToString src req w =
           (Returns (Some r, None),
            w\<lparr>invoked := invoked w @ [req], backing := b,
              counter := (counter w)(''success'' := counter w ''success'' + 1)\<rparr>)"
proof -
  have "checkResponse src iss (Some r) = Returns None"
    using assms(3-5) by (simp add: checkResponse_def)
  then show ?thesis
    using Response_admitted [OF assms(1,2)] by (simp add: Inc_def)
qed

theorem Response_releases_match_witness:
  "checkRequest exampleSerialToString exampleFilter requestB = (2, None) \<and>
   wrapped exampleFilter requestB (backing world0) = ((Some responseB, None), ()) \<and>
   embedded responseB = Some \<lparr>ResponderKeyHash = Kb, resp_SerialNumber = 1\<rparr> \<and>
   gomap_lookup (issuers exampleFilter) 2 = Some \<lparr>nameHash = [0xB0], keyHash = Kb\<rparr> \<and>
   keyHash \<lparr>nameHash = [0xB0], keyHash = Kb\<rparr> =
     ResponderKeyHash \<lparr>ResponderKeyHash = Kb, resp_SerialNumber = 1\<rparr> \<and>
   filterSource_Response exampleSerialToString exampleFilter requestB world0 =
     (Returns (Some responseB, None),
      world0\<lparr>invoked := invoked world0 @ [requestB], backing := (),
        counter := (counter world0)(''success'' := counter world0 ''success'' + 1)\<rparr>)"
proof -
  have h1: "checkRequest exampleSerialToString exampleFilter requestB = (2, None)"
    by code_simp
  have h2: "wrapped exampleFilter requestB (backing world0) = ((Some responseB, None), ())"
    by code_simp
  have h3: "embedded responseB = Some \<lparr>ResponderKeyHash = Kb, resp_SerialNumber = 1\<rparr>"
    by code_simp
  have h4: "gomap_lookup (issuers exampleFilter) 2 = Some \<lparr>nameHash = [0xB0], keyHash = Kb\<rparr>"
    by code_simp
  have h5: "keyHash \<lparr>nameHash = [0xB0], keyHash = Kb\<rparr> =
     ResponderKeyHash \<lparr>ResponderKeyHash = Kb, resp_SerialNumber = 1\<rparr>"
    by simp
  from Response_releases_match [OF h1 h2 h3 h4 h5] h1 h2 h3 h4
  show ?thesis by simp
qed

text \<open>
  C4. A request whose hash algorithm is not the configured one gets an error that is
  \<open>ErrNotFound\<close> under \<open>errors.Is\<close>, and the wrapped source is not called: no request is
  handed to it and its state is as before.
\<close>

theorem Response_wrong_hash_not_found:
  assumes "HashAlgorithm req \<noteq> hashAlgorithm src"
  shows "\<exists>e w'. filterSource_Response SerialToString src req w = (Returns (None, Some e), w') \<and>
           is_not_found e \<and> invoked w' = invoked w \<and> backing w' = backing w \<and>
           counter w' = Inc ''request_filtered'' (counter w)"
proof -
  have "\<exists>e. checkRequest SerialToString src req = (0, Some e)"
    using assms by (simp add: checkRequest_def)
  then obtain e where c: "checkRequest SerialToString src req = (0, Some e)" ..
  from c have "is_not_found e" by (simp add: checkRequest_error_not_found)
  with Response_request_filtered [OF c, of w] show ?thesis by simp
qed

theorem Response_wrong_hash_not_found_witness:
  "HashAlgorithm requestSHA256 \<noteq> hashAlgorithm exampleFilter \<and>
   (\<exists>e w'. filterSource_Response exampleSerialToString exampleFilter requestSHA256 world0 =
              (Returns (None, Some e), w') \<and>
            is_not_found e \<and> invoked w' = invoked world0 \<and> backing w' = backing world0 \<and>
            counter w' = Inc ''request_filtered'' (counter world0))"
proof -
  have h: "HashAlgorithm requestSHA256 \<noteq> hashAlgorithm exampleFilter"
    by code_simp
  from Response_wrong_hash_not_found [OF h] h
  show ?thesis by simp
qed

lemma exampleSerialToString_other:
  "exampleSerialToString (SerialNumber requestOther) = ''ab0000000000000000000000000000000001''"
  by (simp add: exampleSerialToString_def requestOther_def requestA_def hexa.simps
      hexdigit_def)

text \<open>
  C5. With a non-empty list of prefixes, a request whose serial string starts with
  none of them gets a not-found error and the wrapped source is not called. With an
  empty list the result of \<open>checkRequest\<close> does not depend on the serial number or on
  how it is written, and it is never the error for an unrecognized serial prefix.
\<close>

theorem Response_serial_prefix:
  "(serialPrefixes src \<noteq> [] \<and>
    (\<forall>p \<in> set (serialPrefixes src). \<not> prefix p (SerialToString (SerialNumber req))) \<longrightarrow>
      (\<exists>e w'. filterSource_Response SerialToString src req w = (Returns (None, Some e), w') \<and>
           is_not_found e \<and> invoked w' = invoked w \<and> backing w' = backing w)) \<and>
   (serialPrefixes src = [] \<longrightarrow>
      checkRequest SerialToString src req =
        checkRequest SerialToString' src (req\<lparr>SerialNumber := n\<rparr>) \<and>
      snd (checkRequest SerialToString src req) \<noteq>
        Some (Errorf ''unrecognized serial prefix: %w'' [] (Some ErrNotFound)))"
proof (intro conjI impI)
  assume a: "serialPrefixes src \<noteq> [] \<and>
    (\<forall>p \<in> set (serialPrefixes src). \<not> prefix p (SerialToString (SerialNumber req)))"
  then have "\<not> matchPrefix (SerialToString (SerialNumber req)) (serialPrefixes src)"
    by (simp add: matchPrefix_iff)
  with a have "\<exists>e. checkRequest SerialToString src req = (0, Some e)"
    by (simp add: checkRequest_def)
  then obtain e where c: "checkRequest SerialToString src req = (0, Some e)" ..
  from c have "is_not_found e" by (simp add: checkRequest_error_not_found)
  with Response_request_filtered [OF c, of w]
  show "\<exists>e w'. filterSource_Response SerialToString src req w = (Returns (None, Some e), w') \<and>
           is_not_found e \<and> invoked w' = invoked w \<and> backing w' = backing w"
    by simp
next
  assume "serialPrefixes src = []"
  then show "checkRequest SerialToString src req =
      checkRequest SerialToString' src (req\<lparr>SerialNumber := n\<rparr>)"
    by (simp add: checkRequest_def split: option.splits)
next
  assume "serialPrefixes src = []"
  then show "snd (checkRequest SerialToString src req) \<noteq>
        Some (Errorf ''unrecognized serial prefix: %w'' [] (Some ErrNotFound))"
    by (simp add: checkRequest_def split: option.splits)
qed

theorem Response_serial_prefix_witness:
  "(serialPrefixes exampleFilter = [''ff'', ''00''] \<and>
    exampleSerialToString (SerialNumber requestOther) =
      ''ab0000000000000000000000000000000001'' \<and>
    (\<exists>e w'. filterSource_Response exampleSerialToString exampleFilter requestOther world0 =
               (Returns (None, Some e), w') \<and>
             is_not_found e \<and> invoked w' = invoked world0 \<and> backing w' = backing world0)) \<and>
   (serialPrefixes openFilter = [] \<and>
    checkRequest exampleSerialToString openFilter requestA =
      checkRequest exampleSerialToString openFilter
        (requestA\<lparr>SerialNumber := 0xAB0000000000000000000000000000000001\<rparr>) \<and>
    snd (checkRequest exampleSerialToString openFilter requestA) \<noteq>
      Some (Errorf ''unrecognized serial prefix: %w'' [] (Some ErrNotFound)))"
proof -
  have sp: "serialPrefixes exampleFilter = [''ff'', ''00'']"
    by code_simp
  note s = exampleSerialToString_other
  have h1: "serialPrefixes exampleFilter \<noteq> [] \<and>
    (\<forall>p \<in> set (serialPrefixes exampleFilter).
       \<not> prefix p (exampleSerialToString (SerialNumber requestOther)))"
    by (simp add: sp s)
  have h2: "serialPrefixes openFilter = []"
    by code_simp
  from Response_serial_prefix [of exampleFilter exampleSerialToString requestOther world0]
    Response_serial_prefix [of openFilter exampleSerialToString requestA world0
      exampleSerialToString "0xAB0000000000000000000000000000000001"]
    h1 h2 sp s
  show ?thesis by blast
qed

text \<open>
  C6. A request whose issuer key hash is the key hash of no configured issuer gets a
  not-found error and the wrapped source is not called. When the key hash is that of
  a configured issuer and the request has come to the search of the issuers, past
  the checks of the hash algorithm and of the serial prefixes, \<open>checkRequest\<close> returns
  the identifier of a configured issuer with that key hash: that issuer's, unless
  another configured issuer has the same key hash. \<open>Response\<close> gives this identifier
  to \<open>checkResponse\<close>.
\<close>

theorem Response_issuer_lookup:
  "((\<forall>(k, rid) \<in> set (gomap_range (issuers src)). keyHash rid \<noteq> IssuerKeyHash req) \<longrightarrow>
      (\<exists>e w'. filterSource_Response SerialToString src req w = (Returns (None, Some e), w') \<and>
           is_not_found e \<and> invoked w' = invoked w \<and> backing w' = backing w)) \<and>
   (gomap_ok (issuers src) \<and>
    (nameID, rid) \<in> set (gomap_range (issuers src)) \<and> keyHash rid = IssuerKeyHash req \<and>
    HashAlgorithm req = hashAlgorithm src \<and>
    (serialPrefixes src = [] \<or>
       (\<exists>p \<in> set (serialPrefixes src). prefix p (SerialToString (SerialNumber req)))) \<longrightarrow>
      (\<exists>iss rid'. checkRequest SerialToString src req = (iss, None) \<and>
         gomap_lookup (issuers src) iss = Some rid' \<and> keyHash rid' = IssuerKeyHash req \<and>
         ((\<forall>(k, r) \<in> set (gomap_range (issuers src)).
              keyHash r = IssuerKeyHash req \<longrightarrow> k = nameID) \<longrightarrow> iss = nameID) \<and>
         (\<forall>resp b. wrapped src req (backing w) = ((resp, None), b) \<longrightarrow>
            fst (filterSource_Response SerialToString src req w) =
              (case checkResponse src iss resp of
                 Panics p \<Rightarrow> Panics p
               | Returns (Some err) \<Rightarrow> Returns (None, Some err)
               | Returns None \<Rightarrow> Returns (resp, None)))))"
proof (intro conjI impI)
  assume "\<forall>(k, rid) \<in> set (gomap_range (issuers src)). keyHash rid \<noteq> IssuerKeyHash req"
  from checkRequest_unknown_issuer [OF this, of SerialToString]
  obtain e where c: "checkRequest SerialToString src req = (0, Some e)" ..
  from c have "is_not_found e" by (simp add: checkRequest_error_not_found)
  with Response_request_filtered [OF c, of w]
  show "\<exists>e w'. filterSource_Response SerialToString src req w = (Returns (None, Some e), w') \<and>
           is_not_found e \<and> invoked w' = invoked w \<and> backing w' = backing w"
    by simp
next
  assume a: "gomap_ok (issuers src) \<and>
    (nameID, rid) \<in> set (gomap_range (issuers src)) \<and> keyHash rid = IssuerKeyHash req \<and>
    HashAlgorithm req = hashAlgorithm src \<and>
    (serialPrefixes src = [] \<or>
       (\<exists>p \<in> set (serialPrefixes src). prefix p (SerialToString (SerialNumber req))))"
  then obtain iss rid' where c: "checkRequest SerialToString src req = (iss, None)"
    and m: "(iss, rid') \<in> set (gomap_range (issuers src))"
    and h: "keyHash rid' = IssuerKeyHash req"
    using checkRequest_known_issuer [of nameID rid src req SerialToString] by blast
  from a m have l: "gomap_lookup (issuers src) iss = Some rid'"
    by (simp add: gomap_lookup_range)
  have u: "(\<forall>(k, r) \<in> set (gomap_range (issuers src)).
              keyHash r = IssuerKeyHash req \<longrightarrow> k = nameID) \<longrightarrow> iss = nameID"
    using m h by blast
  have r: "\<forall>resp b. wrapped src req (backing w) = ((resp, None), b) \<longrightarrow>
            fst (filterSource_Response SerialToString src req w) =
              (case checkResponse src iss resp of
                 Panics p \<Rightarrow> Panics p
               | Returns (Some err) \<Rightarrow> Returns (None, Some err)
               | Returns None \<Rightarrow> Returns (resp, None))"
    using Response_uses_iss [OF c] by blast
  from c l h u r
  show "\<exists>iss rid'. checkRequest SerialToString src req = (iss, None) \<and>
         gomap_lookup (issuers src) iss = Some rid' \<and> keyHash rid' = IssuerKeyHash req \<and>
         ((\<forall>(k, r) \<in> set (gomap_range (issuers src)).
              keyHash r = IssuerKeyHash req \<longrightarrow> k = nameID) \<longrightarrow> iss = nameID) \<and>
         (\<forall>resp b. wrapped src req (backing w) = ((resp, None), b) \<longrightarrow>
            fst (filterSource_Response SerialToString src req w) =
              (case checkResponse src iss resp of
                 Panics p \<Rightarrow> Panics p
               | Returns (Some err) \<Rightarrow> Returns (None, Some err)
               | Returns None \<Rightarrow> Returns (resp, None)))"
    by blast
qed

theorem Response_issuer_lookup_witness:
  "(gomap_range (issuers exampleFilter) =
      [(1, \<lparr>nameHash = [0xA0], keyHash = Ka\<rparr>), (2, \<lparr>nameHash = [0xB0], keyHash = Kb\<rparr>)] \<and>
    Ka \<noteq> IssuerKeyHash requestC \<and> Kb \<noteq> IssuerKeyHash requestC \<and>
    (\<exists>e w'. filterSource_Response exampleSerialToString exampleFilter requestC world0 =
               (Returns (None, Some e), w') \<and>
             is_not_found e \<and> invoked w' = invoked world0 \<and> backing w' = backing world0)) \<and>
   (gomap_ok (issuers exampleFilter) \<and> Ka = IssuerKeyHash requestA \<and>
    HashAlgorithm requestA = hashAlgorithm exampleFilter \<and>
    prefix ''00'' (exampleSerialToString (SerialNumber requestA)) \<and>
    checkRequest exampleSerialToString exampleFilter requestA = (1, None) \<and>
    fst (filterSource_Response exampleSerialToString exampleFilter requestA world0) =
      Returns (None, Some (Errorf ''responder does not match requested issuer'' [] None)))"
proof -
  let ?A = "\<lparr>nameHash = [0xA0], keyHash = Ka\<rparr>"
  have g: "gomap_range (issuers exampleFilter) =
      [(1, ?A), (2, \<lparr>nameHash = [0xB0], keyHash = Kb\<rparr>)]"
    by code_simp
  have a: "Ka \<noteq> IssuerKeyHash requestC" by code_simp
  have b: "Kb \<noteq> IssuerKeyHash requestC" by code_simp
  have h1: "\<forall>(k, rid) \<in> set (gomap_range (issuers exampleFilter)).
      keyHash rid \<noteq> IssuerKeyHash requestC"
    using a b by (simp add: g)
  have ok: "gomap_ok (issuers exampleFilter)" by code_simp
  have ka: "Ka = IssuerKeyHash requestA" by code_simp
  have ha: "HashAlgorithm requestA = hashAlgorithm exampleFilter" by code_simp
  have pa: "prefix ''00'' (exampleSerialToString (SerialNumber requestA))" by code_simp
  have sp: "serialPrefixes exampleFilter = [''ff'', ''00'']" by code_simp
  have kb: "Kb \<noteq> IssuerKeyHash requestA" by code_simp
  have h2: "gomap_ok (issuers exampleFilter) \<and>
    (1, ?A) \<in> set (gomap_range (issuers exampleFilter)) \<and> keyHash ?A = IssuerKeyHash requestA \<and>
    HashAlgorithm requestA = hashAlgorithm exampleFilter \<and>
    (serialPrefixes exampleFilter = [] \<or>
       (\<exists>p \<in> set (serialPrefixes exampleFilter).
          prefix p (exampleSerialToString (SerialNumber requestA))))"
    using ok ka ha pa by (simp add: g sp)
  have u: "\<forall>(k, r) \<in> set (gomap_range (issuers exampleFilter)).
      keyHash r = IssuerKeyHash requestA \<longrightarrow> k = 1"
    using kb by (simp add: g)
  have w: "wrapped exampleFilter requestA (backing world0) = ((Some responseB, None), ())"
    by code_simp
  have cr: "checkResponse exampleFilter 1 (Some responseB) =
      Returns (Some (Errorf ''responder does not match requested issuer'' [] None))"
    by code_simp
  note T = Response_issuer_lookup [of exampleFilter requestC exampleSerialToString world0]
  note T' = Response_issuer_lookup [of exampleFilter requestA exampleSerialToString world0 1 ?A]
  from T h1 have p1: "\<exists>e w'. filterSource_Response exampleSerialToString exampleFilter requestC world0 =
               (Returns (None, Some e), w') \<and>
             is_not_found e \<and> invoked w' = invoked world0 \<and> backing w' = backing world0"
    by blast
  from T' h2 u w obtain iss where
    "checkRequest exampleSerialToString exampleFilter requestA = (iss, None)" "iss = 1"
    "fst (filterSource_Response exampleSerialToString exampleFilter requestA world0) =
       (case checkResponse exampleFilter iss (Some responseB) of
          Panics p \<Rightarrow> Panics p
        | Returns (Some err) \<Rightarrow> Returns (None, Some err)
        | Returns None \<Rightarrow> Returns (Some responseB, None))"
    by blast
  then have p2: "checkRequest exampleSerialToString exampleFilter requestA = (1, None) \<and>
    fst (filterSource_Response exampleSerialToString exampleFilter requestA world0) =
      Returns (None, Some (Errorf ''responder does not match requested issuer'' [] None))"
    by (simp add: cr)
  from g a b p1 ok ka ha pa p2 show ?thesis by blast
qed

text \<open>
  C7. An error of \<open>checkResponse\<close> is not \<open>ErrNotFound\<close> under \<open>errors.Is\<close>, and \<open>Response\<close>
  returns it as it is; every error of \<open>checkRequest\<close> is \<open>ErrNotFound\<close> under \<open>errors.Is\<close>,
  and \<open>Response\<close> returns it as it is.
\<close>

theorem mismatch_plain_request_not_found:
  "(checkResponse src iss resp = Returns (Some e) \<longrightarrow> \<not> is_not_found e) \<and>
   (checkRequest SerialToString src req = (iss, None) \<and>
    wrapped src req (backing w) = ((resp, None), b) \<and>
    checkResponse src iss resp = Returns (Some e) \<longrightarrow>
      fst (filterSource_Response SerialToString src req w) = Returns (None, Some e)) \<and>
   (snd (checkRequest SerialToString src req) = Some e' \<longrightarrow>
      is_not_found e' \<and>
      fst (filterSource_Response SerialToString src req w) = Returns (None, Some e'))"
proof (intro conjI impI)
  assume "checkResponse src iss resp = Returns (Some e)"
  then show "\<not> is_not_found e" by (rule checkResponse_error_plain)
next
  assume "checkRequest SerialToString src req = (iss, None) \<and>
    wrapped src req (backing w) = ((resp, None), b) \<and>
    checkResponse src iss resp = Returns (Some e)"
  then show "fst (filterSource_Response SerialToString src req w) = Returns (None, Some e)"
    by (simp add: Response_uses_iss)
next
  assume a: "snd (checkRequest SerialToString src req) = Some e'"
  then have c: "checkRequest SerialToString src req =
      (fst (checkRequest SerialToString src req), Some e')"
    by (simp add: prod_eq_iff)
  from checkRequest_error_not_found [OF c] show "is_not_found e'" by simp
  from Response_request_filtered [OF c, of w]
  show "fst (filterSource_Response SerialToString src req w) = Returns (None, Some e')"
    by simp
qed

theorem mismatch_plain_request_not_found_witness:
  "checkRequest exampleSerialToString exampleFilter requestA = (1, None) \<and>
   wrapped exampleFilter requestA (backing world0) = ((Some responseB, None), ()) \<and>
   checkResponse exampleFilter 1 (Some responseB) =
     Returns (Some (Errorf ''responder does not match requested issuer'' [] None)) \<and>
   \<not> is_not_found (Errorf ''responder does not match requested issuer'' [] None) \<and>
   fst (filterSource_Response exampleSerialToString exampleFilter requestA world0) =
     Returns (None, Some (Errorf ''responder does not match requested issuer'' [] None)) \<and>
   snd (checkRequest exampleSerialToString exampleFilter requestC) =
     Some (Errorf ''unrecognized issuer key hash %s: %w'' [AStr ''0c33''] (Some ErrNotFound)) \<and>
   is_not_found
     (Errorf ''unrecognized issuer key hash %s: %w'' [AStr ''0c33''] (Some ErrNotFound)) \<and>
   fst (filterSource_Response exampleSerialToString exampleFilter requestC world0) =
     Returns (None,
       Some (Errorf ''unrecognized issuer key hash %s: %w'' [AStr ''0c33'']
               (Some ErrNotFound)))"
proof -
  let ?e = "Errorf ''responder does not match requested issuer'' [] None"
  let ?e' = "Errorf ''unrecognized issuer key hash %s: %w'' [AStr ''0c33''] (Some ErrNotFound)"
  have h1: "checkRequest exampleSerialToString exampleFilter requestA = (1, None)"
    by code_simp
  have h2: "wrapped exampleFilter requestA (backing world0) = ((Some responseB, None), ())"
    by code_simp
  have h3: "checkResponse exampleFilter 1 (Some responseB) = Returns (Some ?e)"
    by code_simp
  have h4: "snd (checkRequest exampleSerialToString exampleFilter requestC) = Some ?e'"
    by code_simp
  from mismatch_plain_request_not_found
    [of exampleFilter 1 "Some responseB" ?e exampleSerialToString requestA world0 "()"]
    mismatch_plain_request_not_found
    [of exampleFilter 1 "Some responseB" ?e exampleSerialToString requestC world0 "()" ?e']
    h1 h2 h3 h4
  show ?thesis by blast
qed

section \<open>The in-memory source and its loader\<close>

text \<open>
  C8. For a file that can be read, \<open>NewMemorySourceFromFile\<close> returns a source and no
  error, whatever the tokens are. It logs one error line for each token that is
  not empty and does not decode or parse, in the order of the file, and then the
  number of entries. The keys of its map are the decimal strings of the serial
  numbers of the tokens that decode and parse. A request is answered with not-found
  exactly when its serial number is not one of these, and any other answer is the
  response and the bytes of such a token with the serial number of the request.
\<close>

theorem NewMemorySourceFromFile_skips_malformed:
  assumes "ReadFile f = Inr contents"
  shows "\<exists>rs. NewMemorySourceFromFile ReadFile D P f lg =
           (Returns (Some \<lparr>responses = GoMap rs\<rparr>, None),
            lg @ failures D P (Split contents) @
              [Infof ''Read %d OCSP responses'' [LInt (int (length rs))]]) \<and>
         fst ` set rs =
           Int_String ` (\<lambda>dr. resp_SerialNumber (snd dr)) ` set (valid D P (Split contents)) \<and>
         (\<forall>request.
            InMemorySource_Response \<lparr>responses = GoMap rs\<rparr> request = (None, Some ErrNotFound)
              \<longleftrightarrow>
            SerialNumber request \<notin>
              (\<lambda>dr. resp_SerialNumber (snd dr)) ` set (valid D P (Split contents))) \<and>
         (\<forall>request resp err.
            InMemorySource_Response \<lparr>responses = GoMap rs\<rparr> request = (resp, err) \<longrightarrow>
            (resp = None \<and> err = Some ErrNotFound) \<or>
            (\<exists>der r. (der, r) \<in> set (valid D P (Split contents)) \<and>
               resp_SerialNumber r = SerialNumber request \<and>
               resp = Some \<lparr>embedded = Some r, Raw = der\<rparr> \<and> err = None))"
proof -
  let ?vs = "valid D P (Split contents)"
  let ?rs = "assignAll (map entry ?vs) []"
  have 1: "NewMemorySourceFromFile ReadFile D P f lg =
           (Returns (Some \<lparr>responses = GoMap ?rs\<rparr>, None),
            lg @ failures D P (Split contents) @
              [Infof ''Read %d OCSP responses'' [LInt (int (length ?rs))]])"
    using NewMemorySourceFromFile_loads [of ReadFile f contents D P lg] assms by simp
  have 2: "fst ` set ?rs = Int_String ` (\<lambda>dr. resp_SerialNumber (snd dr)) ` set ?vs"
    by (simp only: keys_assignAll keys_entries) simp
  have 3: "\<forall>request.
            InMemorySource_Response \<lparr>responses = GoMap ?rs\<rparr> request = (None, Some ErrNotFound)
              \<longleftrightarrow>
            SerialNumber request \<notin> (\<lambda>dr. resp_SerialNumber (snd dr)) ` set ?vs"
    by (simp only: loaded_answers) simp
  have 4: "\<forall>request resp err.
            InMemorySource_Response \<lparr>responses = GoMap ?rs\<rparr> request = (resp, err) \<longrightarrow>
            (resp = None \<and> err = Some ErrNotFound) \<or>
            (\<exists>der r. (der, r) \<in> set ?vs \<and>
               resp_SerialNumber r = SerialNumber request \<and>
               resp = Some \<lparr>embedded = Some r, Raw = der\<rparr> \<and> err = None)"
    using loaded_answers_stored by blast
  from 1 2 3 4 show ?thesis by blast
qed

text \<open>
  A file with two good tokens, a malformed one and an empty one.
\<close>

theorem NewMemorySourceFromFile_skips_malformed_witness:
  "exampleReadFile ''two_good_one_bad'' = Inr (''1a'' @ [CHR 0x0A] @ ''!!!!  2b'') \<and>
   Split (''1a'' @ [CHR 0x0A] @ ''!!!!  2b'') = [''1a'', ''!!!!'', [], ''2b''] \<and>
   valid exampleDecodeString exampleParseResponse [''1a'', ''!!!!'', [], ''2b''] =
     [([0x31, 0x61], \<lparr>ResponderKeyHash = [0x61], resp_SerialNumber = 1\<rparr>),
      ([0x32, 0x62], \<lparr>ResponderKeyHash = [0x62], resp_SerialNumber = 2\<rparr>)] \<and>
   failures exampleDecodeString exampleParseResponse [''1a'', ''!!!!'', [], ''2b''] =
     [Errf ''Base64 decode error %s on: %s''
        [LErr (ErrorsNew ''illegal base64 data''), LStr ''!!!!'']] \<and>
   (\<exists>rs. NewMemorySourceFromFile exampleReadFile exampleDecodeString exampleParseResponse
            ''two_good_one_bad'' [] =
           (Returns (Some \<lparr>responses = GoMap rs\<rparr>, None),
            [Errf ''Base64 decode error %s on: %s''
               [LErr (ErrorsNew ''illegal base64 data''), LStr ''!!!!''],
             Infof ''Read %d OCSP responses'' [LInt (int (length rs))]]) \<and>
         fst ` set rs = {''1'', ''2''} \<and>
         InMemorySource_Response \<lparr>responses = GoMap rs\<rparr> (requestA\<lparr>SerialNumber := 3\<rparr>) =
           (None, Some ErrNotFound) \<and>
         InMemorySource_Response \<lparr>responses = GoMap rs\<rparr> (requestA\<lparr>SerialNumber := 2\<rparr>) \<noteq>
           (None, Some ErrNotFound))"
proof -
  let ?c = "''1a'' @ [CHR 0x0A] @ ''!!!!  2b''"
  let ?vs = "[([0x31, 0x61], \<lparr>ResponderKeyHash = [0x61], resp_SerialNumber = 1\<rparr>),
      ([0x32, 0x62 :: 8 word], \<lparr>ResponderKeyHash = [0x62], resp_SerialNumber = 2\<rparr>)]"
  have h: "exampleReadFile ''two_good_one_bad'' = Inr ?c"
    by code_simp
  have s: "Split ?c = [''1a'', ''!!!!'', [], ''2b'']"
    by code_simp
  have v: "valid exampleDecodeString exampleParseResponse [''1a'', ''!!!!'', [], ''2b''] = ?vs"
    by code_simp
  have e: "failures exampleDecodeString exampleParseResponse [''1a'', ''!!!!'', [], ''2b''] =
     [Errf ''Base64 decode error %s on: %s''
        [LErr (ErrorsNew ''illegal base64 data''), LStr ''!!!!'']]"
    by code_simp
  have k: "Int_String ` (\<lambda>dr. resp_SerialNumber (snd dr)) ` set ?vs = {''1'', ''2''}"
    by (simp add: Int_String_def decimal.simps digit_def)
  have r3: "SerialNumber (requestA\<lparr>SerialNumber := 3\<rparr>) \<notin>
      (\<lambda>dr. resp_SerialNumber (snd dr)) ` set ?vs"
    by simp
  have r2: "\<not> SerialNumber (requestA\<lparr>SerialNumber := 2\<rparr>) \<notin>
      (\<lambda>dr. resp_SerialNumber (snd dr)) ` set ?vs"
    by simp
  from NewMemorySourceFromFile_skips_malformed
    [of exampleReadFile "''two_good_one_bad''" ?c exampleDecodeString exampleParseResponse "[]"] h
  obtain rs where
    "NewMemorySourceFromFile exampleReadFile exampleDecodeString exampleParseResponse
       ''two_good_one_bad'' [] =
     (Returns (Some \<lparr>responses = GoMap rs\<rparr>, None),
      [] @ failures exampleDecodeString exampleParseResponse (Split ?c) @
        [Infof ''Read %d OCSP responses'' [LInt (int (length rs))]])"
    "fst ` set rs = Int_String ` (\<lambda>dr. resp_SerialNumber (snd dr)) `
       set (valid exampleDecodeString exampleParseResponse (Split ?c))"
    "\<forall>request.
        InMemorySource_Response \<lparr>responses = GoMap rs\<rparr> request = (None, Some ErrNotFound)
          \<longleftrightarrow>
        SerialNumber request \<notin> (\<lambda>dr. resp_SerialNumber (snd dr)) `
          set (valid exampleDecodeString exampleParseResponse (Split ?c))"
    by blast
  then have "NewMemorySourceFromFile exampleReadFile exampleDecodeString exampleParseResponse
            ''two_good_one_bad'' [] =
           (Returns (Some \<lparr>responses = GoMap rs\<rparr>, None),
            [Errf ''Base64 decode error %s on: %s''
               [LErr (ErrorsNew ''illegal base64 data''), LStr ''!!!!''],
             Infof ''Read %d OCSP responses'' [LInt (int (length rs))]]) \<and>
         fst ` set rs = {''1'', ''2''} \<and>
         InMemorySource_Response \<lparr>responses = GoMap rs\<rparr> (requestA\<lparr>SerialNumber := 3\<rparr>) =
           (None, Some ErrNotFound) \<and>
         InMemorySource_Response \<lparr>responses = GoMap rs\<rparr> (requestA\<lparr>SerialNumber := 2\<rparr>) \<noteq>
           (None, Some ErrNotFound)"
    using r3 r2 k by (simp only: s v e) simp
  with h s v e show ?thesis by blast
qed

text \<open>
  C9. \<open>InMemorySource.Response\<close> finds the response by the serial number alone,
  whatever the hash algorithm and the issuer hashes of the request are. When the map
  has an entry whose key is the decimal string of the serial number of the request,
  it returns the response stored in that entry and no error. When no entry has that
  key, and so when every key is the decimal string of another number, it returns
  no response and \<open>ErrNotFound\<close>.
\<close>

theorem InMemorySource_Response_by_serial:
  "(gomap_ok (responses src) \<and>
    (Int_String n, v) \<in> set (gomap_range (responses src)) \<and> SerialNumber request = n \<longrightarrow>
      InMemorySource_Response src
        (request\<lparr>HashAlgorithm := h, IssuerNameHash := nh, IssuerKeyHash := kh\<rparr>) =
      (v, None)) \<and>
   ((\<forall>(k, v) \<in> set (gomap_range (responses src)). k \<noteq> Int_String (SerialNumber request)) \<longrightarrow>
      InMemorySource_Response src
        (request\<lparr>HashAlgorithm := h, IssuerNameHash := nh, IssuerKeyHash := kh\<rparr>) =
      (None, Some ErrNotFound)) \<and>
   ((\<forall>(k, v) \<in> set (gomap_range (responses src)).
        \<exists>m. k = Int_String m \<and> m \<noteq> SerialNumber request) \<longrightarrow>
      InMemorySource_Response src
        (request\<lparr>HashAlgorithm := h, IssuerNameHash := nh, IssuerKeyHash := kh\<rparr>) =
      (None, Some ErrNotFound)) \<and>
   is_not_found ErrNotFound"
proof (intro conjI impI)
  assume a: "gomap_ok (responses src) \<and>
    (Int_String n, v) \<in> set (gomap_range (responses src)) \<and> SerialNumber request = n"
  then have "gomap_lookup (responses src) (Int_String n) = Some v"
    by (simp add: gomap_lookup_range)
  with a show "InMemorySource_Response src
        (request\<lparr>HashAlgorithm := h, IssuerNameHash := nh, IssuerKeyHash := kh\<rparr>) =
      (v, None)"
    by (simp add: InMemorySource_Response_def)
next
  assume "\<forall>(k, v) \<in> set (gomap_range (responses src)). k \<noteq> Int_String (SerialNumber request)"
  then have "gomap_lookup (responses src) (Int_String (SerialNumber request)) = None"
    by (rule gomap_lookup_absent)
  then show "InMemorySource_Response src
        (request\<lparr>HashAlgorithm := h, IssuerNameHash := nh, IssuerKeyHash := kh\<rparr>) =
      (None, Some ErrNotFound)"
    by (simp add: InMemorySource_Response_def)
next
  assume "\<forall>(k, v) \<in> set (gomap_range (responses src)).
        \<exists>m. k = Int_String m \<and> m \<noteq> SerialNumber request"
  then have "\<forall>(k, v) \<in> set (gomap_range (responses src)).
      k \<noteq> Int_String (SerialNumber request)"
    by (auto simp: Int_String_inj)
  then have "gomap_lookup (responses src) (Int_String (SerialNumber request)) = None"
    by (rule gomap_lookup_absent)
  then show "InMemorySource_Response src
        (request\<lparr>HashAlgorithm := h, IssuerNameHash := nh, IssuerKeyHash := kh\<rparr>) =
      (None, Some ErrNotFound)"
    by (simp add: InMemorySource_Response_def)
next
  show "is_not_found ErrNotFound" by simp
qed

text \<open>
  A store with the serial numbers 1 and 27: a request for 27 that names the other
  issuer and another hash algorithm gets the response stored for 27, and a request
  for 2 gets \<open>ErrNotFound\<close>.
\<close>

theorem InMemorySource_Response_by_serial_witness:
  "gomap_range (responses twoResponses) = [(''1'', Some responseB), (''27'', Some responseA)] \<and>
   gomap_ok (responses twoResponses) \<and>
   Int_String 1 = ''1'' \<and> Int_String 27 = ''27'' \<and> Int_String 2 = ''2'' \<and>
   InMemorySource_Response twoResponses
     (requestB\<lparr>SerialNumber := 27, HashAlgorithm := SHA256, IssuerNameHash := [],
        IssuerKeyHash := Kb\<rparr>) =
     (Some responseA, None) \<and>
   InMemorySource_Response twoResponses
     (requestA\<lparr>SerialNumber := 2, HashAlgorithm := SHA1, IssuerNameHash := [0xA0],
        IssuerKeyHash := Ka\<rparr>) =
     (None, Some ErrNotFound)"
proof -
  let ?r27 = "requestB\<lparr>SerialNumber := 27\<rparr>"
  let ?r2 = "requestA\<lparr>SerialNumber := 2\<rparr>"
  have g: "gomap_range (responses twoResponses) =
      [(''1'', Some responseB), (''27'', Some responseA)]"
    by code_simp
  have ok: "gomap_ok (responses twoResponses)"
    by code_simp
  have k1: "Int_String 1 = ''1''" by code_simp
  have k27: "Int_String 27 = ''27''" by code_simp
  have k2: "Int_String 2 = ''2''" by code_simp
  have s27: "SerialNumber ?r27 = 27" by simp
  have s2: "SerialNumber ?r2 = 2" by simp
  have h1: "gomap_ok (responses twoResponses) \<and>
      (Int_String 27, Some responseA) \<in> set (gomap_range (responses twoResponses)) \<and>
      SerialNumber ?r27 = 27"
    using ok by (simp add: g k27)
  have "''1'' = Int_String 1 \<and> (1::int) \<noteq> 2" "''27'' = Int_String 27 \<and> (27::int) \<noteq> 2"
    by (simp_all add: k1 k27)
  then have h2: "\<forall>(k, v) \<in> set (gomap_range (responses twoResponses)).
      \<exists>m. k = Int_String m \<and> m \<noteq> SerialNumber ?r2"
    unfolding g s2 by auto
  from InMemorySource_Response_by_serial
         [where src = twoResponses and n = 27 and v = "Some responseA" and request = ?r27
            and h = SHA256 and nh = "[]" and kh = Kb] h1
  have a: "InMemorySource_Response twoResponses
     (?r27\<lparr>HashAlgorithm := SHA256, IssuerNameHash := [], IssuerKeyHash := Kb\<rparr>) =
     (Some responseA, None)"
    by blast
  from InMemorySource_Response_by_serial
         [where src = twoResponses and request = ?r2 and h = SHA1 and nh = "[0xA0]"
            and kh = Ka] h2
  have b: "InMemorySource_Response twoResponses
     (?r2\<lparr>HashAlgorithm := SHA1, IssuerNameHash := [0xA0], IssuerKeyHash := Ka\<rparr>) =
     (None, Some ErrNotFound)"
    by blast
  from g ok k1 k27 k2 a b show ?thesis by simp
qed

text \<open>
  C10. When the tokens that decode and parse include one with serial number \<open>s\<close> and
  none after it has that serial number, the loaded map has exactly one entry for
  \<open>s\<close>, a request for \<open>s\<close> is answered with the response and bytes of that token, the
  number reported is the number of different serial numbers, and nothing is logged
  for the responses that were overwritten.
\<close>

theorem NewMemorySourceFromFile_last_wins:
  assumes "ReadFile f = Inr contents"
    and "valid D P (Split contents) = pre @ (der, r) # post"
    and "resp_SerialNumber r \<notin> (\<lambda>dr. resp_SerialNumber (snd dr)) ` set post"
  shows "\<exists>rs. NewMemorySourceFromFile ReadFile D P f lg =
           (Returns (Some \<lparr>responses = GoMap rs\<rparr>, None),
            lg @ failures D P (Split contents) @
              [Infof ''Read %d OCSP responses''
                 [LInt (int (card ((\<lambda>dr. resp_SerialNumber (snd dr)) `
                                     set (valid D P (Split contents)))))]]) \<and>
         length (filter (\<lambda>kv. fst kv = Int_String (resp_SerialNumber r)) rs) = 1 \<and>
         (\<forall>request. SerialNumber request = resp_SerialNumber r \<longrightarrow>
            InMemorySource_Response \<lparr>responses = GoMap rs\<rparr> request =
              (Some \<lparr>embedded = Some r, Raw = der\<rparr>, None))"
proof -
  let ?vs = "valid D P (Split contents)"
  let ?rs = "assignAll (map entry ?vs) []"
  let ?k = "Int_String (resp_SerialNumber r)"
  have 1: "NewMemorySourceFromFile ReadFile D P f lg =
           (Returns (Some \<lparr>responses = GoMap ?rs\<rparr>, None),
            lg @ failures D P (Split contents) @
              [Infof ''Read %d OCSP responses''
                 [LInt (int (card ((\<lambda>dr. resp_SerialNumber (snd dr)) ` set ?vs)))]])"
    using NewMemorySourceFromFile_loads [of ReadFile f contents D P lg] assms(1)
    by (simp only: loaded_count)
  have l: "map_of ?rs ?k = Some (Some \<lparr>embedded = Some r, Raw = der\<rparr>)"
    by (rule loaded_last_wins [OF assms(2,3)])
  then have "?k \<in> fst ` set ?rs"
    by (metis map_of_eq_None_iff option.distinct(1))
  moreover have "distinct (map fst ?rs)"
    by (simp add: distinct_assignAll)
  ultimately have 2: "length (filter (\<lambda>kv. fst kv = ?k) ?rs) = 1"
    by (simp add: one_entry_per_key)
  have 3: "\<forall>request. SerialNumber request = resp_SerialNumber r \<longrightarrow>
            InMemorySource_Response \<lparr>responses = GoMap ?rs\<rparr> request =
              (Some \<lparr>embedded = Some r, Raw = der\<rparr>, None)"
    using l by (simp add: InMemorySource_Response_def)
  from 1 2 3 show ?thesis by blast
qed

theorem NewMemorySourceFromFile_last_wins_witness:
  "exampleReadFile ''same_serial'' = Inr ''7old 8x 7new'' \<and>
   valid exampleDecodeString exampleParseResponse (Split ''7old 8x 7new'') =
     [([0x37, 0x6F, 0x6C, 0x64], \<lparr>ResponderKeyHash = [0x6F, 0x6C, 0x64], resp_SerialNumber = 7\<rparr>),
      ([0x38, 0x78], \<lparr>ResponderKeyHash = [0x78], resp_SerialNumber = 8\<rparr>)] @
     ([0x37, 0x6E, 0x65, 0x77], \<lparr>ResponderKeyHash = [0x6E, 0x65, 0x77], resp_SerialNumber = 7\<rparr>)
       # [] \<and>
   (\<exists>rs. NewMemorySourceFromFile exampleReadFile exampleDecodeString exampleParseResponse
            ''same_serial'' [] =
           (Returns (Some \<lparr>responses = GoMap rs\<rparr>, None),
            [Infof ''Read %d OCSP responses'' [LInt 2]]) \<and>
         length (filter (\<lambda>kv. fst kv = ''7'') rs) = 1 \<and>
         InMemorySource_Response \<lparr>responses = GoMap rs\<rparr> (requestA\<lparr>SerialNumber := 7\<rparr>) =
           (Some \<lparr>embedded = Some \<lparr>ResponderKeyHash = [0x6E, 0x65, 0x77], resp_SerialNumber = 7\<rparr>,
                   Raw = [0x37, 0x6E, 0x65, 0x77]\<rparr>, None))"
proof -
  let ?old = "([0x37, 0x6F, 0x6C, 0x64 :: 8 word],
               \<lparr>ResponderKeyHash = [0x6F, 0x6C, 0x64], resp_SerialNumber = 7\<rparr>)"
  let ?x = "([0x38, 0x78 :: 8 word], \<lparr>ResponderKeyHash = [0x78], resp_SerialNumber = 8\<rparr>)"
  let ?r = "\<lparr>ResponderKeyHash = [0x6E, 0x65, 0x77], resp_SerialNumber = 7\<rparr>"
  let ?der = "[0x37, 0x6E, 0x65, 0x77 :: 8 word]"
  have h1: "exampleReadFile ''same_serial'' = Inr ''7old 8x 7new''"
    by code_simp
  have h2: "valid exampleDecodeString exampleParseResponse (Split ''7old 8x 7new'') =
      [?old, ?x] @ (?der, ?r) # []"
    by code_simp
  have h3: "resp_SerialNumber ?r \<notin> (\<lambda>dr. resp_SerialNumber (snd dr)) ` set []"
    by simp
  have f: "failures exampleDecodeString exampleParseResponse (Split ''7old 8x 7new'') = []"
    by code_simp
  have c: "card ((\<lambda>dr. resp_SerialNumber (snd dr)) ` set ([?old, ?x] @ (?der, ?r) # [])) = 2"
    by (simp add: card_insert_if)
  have k: "Int_String (resp_SerialNumber ?r) = ''7''"
    by code_simp
  from NewMemorySourceFromFile_last_wins
    [of exampleReadFile "''same_serial''" "''7old 8x 7new''" exampleDecodeString
      exampleParseResponse "[?old, ?x]" ?der ?r "[]" "[]"] h1 h2 h3
  have "\<exists>rs. NewMemorySourceFromFile exampleReadFile exampleDecodeString exampleParseResponse
            ''same_serial'' [] =
           (Returns (Some \<lparr>responses = GoMap rs\<rparr>, None),
            [Infof ''Read %d OCSP responses'' [LInt 2]]) \<and>
         length (filter (\<lambda>kv. fst kv = ''7'') rs) = 1 \<and>
         (\<forall>request. SerialNumber request = 7 \<longrightarrow>
            InMemorySource_Response \<lparr>responses = GoMap rs\<rparr> request =
              (Some \<lparr>embedded = Some ?r, Raw = ?der\<rparr>, None))"
    by (simp only: f k h2 c) simp
  then obtain rs where
    1: "NewMemorySourceFromFile exampleReadFile exampleDecodeString exampleParseResponse
            ''same_serial'' [] =
           (Returns (Some \<lparr>responses = GoMap rs\<rparr>, None),
            [Infof ''Read %d OCSP responses'' [LInt 2]])"
    and 2: "length (filter (\<lambda>kv. fst kv = ''7'') rs) = 1"
    and 3: "\<forall>request. SerialNumber request = 7 \<longrightarrow>
            InMemorySource_Response \<lparr>responses = GoMap rs\<rparr> request =
              (Some \<lparr>embedded = Some ?r, Raw = ?der\<rparr>, None)"
    by blast
  from 3 have "InMemorySource_Response \<lparr>responses = GoMap rs\<rparr>
      (requestA\<lparr>SerialNumber := 7\<rparr>) = (Some \<lparr>embedded = Some ?r, Raw = ?der\<rparr>, None)"
    by simp
  with 1 2 h1 h2 show ?thesis by blast
qed

end
